theory Spec2Isabelle
  imports Complex_Main "HOL-Library.Sublist"
begin

section \<open>JavaScript values used by \<open>src/App.tsx\<close>\<close>

subsection \<open>Numbers\<close>

text \<open>
  A JavaScript Number is a finite value, \<open>NaN\<close>, \<open>+Infinity\<close> or \<open>-Infinity\<close>.  A finite
  value is carried as the rational it denotes (every binary64 value is a rational; the two
  zeros are identified, which no comparison of the component tells apart).  The relational
  operators follow ECMAScript: any comparison with \<open>NaN\<close> is false.
\<close>

datatype jsnum = Num rat | NaN | PosInf | NegInf

fun js_le :: "jsnum \<Rightarrow> jsnum \<Rightarrow> bool" where
  "js_le NaN _ = False"
| "js_le _ NaN = False"
| "js_le (Num a) (Num b) = (a \<le> b)"
| "js_le NegInf _ = True"
| "js_le _ PosInf = True"
| "js_le PosInf _ = False"
| "js_le _ NegInf = False"

definition js_ge :: "jsnum \<Rightarrow> jsnum \<Rightarrow> bool" where
  "js_ge a b = js_le b a"

fun js_sub :: "jsnum \<Rightarrow> jsnum \<Rightarrow> jsnum" where
  "js_sub NaN _ = NaN"
| "js_sub _ NaN = NaN"
| "js_sub (Num a) (Num b) = Num (a - b)"
| "js_sub PosInf PosInf = NaN"
| "js_sub NegInf NegInf = NaN"
| "js_sub PosInf _ = PosInf"
| "js_sub NegInf _ = NegInf"
| "js_sub _ PosInf = NegInf"
| "js_sub _ NegInf = PosInf"

definition isFinite :: "jsnum \<Rightarrow> bool" where
  "isFinite x = (case x of Num _ \<Rightarrow> True | _ \<Rightarrow> False)"

subsection \<open>Rounding a literal's value to binary64\<close>

text \<open>
  \<open>Number(string)\<close> yields the binary64 value nearest to the mathematical value of the
  literal, ties to the even significand, and an infinity from \<open>2^1024 - 2^970\<close> on.
\<close>

function bit_length :: "int \<Rightarrow> int" where
  "bit_length n = (if n \<le> 0 then 0 else 1 + bit_length (n div 2))"
  by pat_completeness auto
termination
  by (relation "measure nat") auto

declare bit_length.simps [simp del]

definition round_half_even :: "rat \<Rightarrow> int" where
  "round_half_even x =
     (let f = \<lfloor>x\<rfloor>; d = x - of_int f
      in if d < 1 / 2 then f else if 1 / 2 < d then f + 1 else if even f then f else f + 1)"

definition to_double :: "rat \<Rightarrow> jsnum" where
  "to_double q =
     (if q = 0 then Num 0
      else
        let a = \<bar>q\<bar>;
            k = bit_length (fst (quotient_of a)) - bit_length (snd (quotient_of a));
            e = (if 2 powi k \<le> a then k else k - 1);
            quantum = 2 powi (max e (- 1022) - 52);
            r = of_int (round_half_even (a / quantum)) * quantum
        in if 2 powi 1024 \<le> r then (if q < 0 then NegInf else PosInf)
           else Num (if q < 0 then - r else r))"

subsection \<open>Strings to numbers\<close>

text \<open>
  ECMAScript \<open>StringToNumber\<close>: surrounding white space and line terminators are
  dropped; the empty remainder is \<open>0\<close>; otherwise the whole remainder has to be one
  \<open>StrNumericLiteral\<close> (a signed decimal literal, \<open>Infinity\<close>, or an unsigned binary,
  octal or hexadecimal integer), and any other text is \<open>NaN\<close>.  Strings are UTF-8 byte
  lists, so the white space beyond ASCII is matched by its byte sequences.
\<close>

fun trim_start :: "string \<Rightarrow> string" where
  "trim_start [] = []"
| "trim_start (c # cs) =
     (if c \<in> {CHR 0x09, CHR 0x0A, CHR 0x0B, CHR 0x0C, CHR 0x0D, CHR 0x20} then trim_start cs
      else
        (case cs of
           d # ds \<Rightarrow>
             if c = CHR 0xC2 \<and> d = CHR 0xA0 then trim_start ds
             else
               (case ds of
                  e # es \<Rightarrow>
                    if (c = CHR 0xE1 \<and> d = CHR 0x9A \<and> e = CHR 0x80)
                       \<or> (c = CHR 0xE2 \<and> d = CHR 0x80
                            \<and> (of_char e \<in> {0x80 .. 0x8A :: int}
                                 \<or> e \<in> {CHR 0xA8, CHR 0xA9, CHR 0xAF}))
                       \<or> (c = CHR 0xE2 \<and> d = CHR 0x81 \<and> e = CHR 0x9F)
                       \<or> (c = CHR 0xE3 \<and> d = CHR 0x80 \<and> e = CHR 0x80)
                       \<or> (c = CHR 0xEF \<and> d = CHR 0xBB \<and> e = CHR 0xBF)
                    then trim_start es
                    else c # cs
                | [] \<Rightarrow> c # cs)
         | [] \<Rightarrow> c # cs))"

definition digit_value :: "char \<Rightarrow> int option" where
  "digit_value c =
     (let n = of_char c :: int
      in if 48 \<le> n \<and> n \<le> 57 then Some (n - 48)
         else if 97 \<le> n \<and> n \<le> 102 then Some (n - 87)
         else if 65 \<le> n \<and> n \<le> 70 then Some (n - 55)
         else None)"

definition is_digit_of :: "int \<Rightarrow> char \<Rightarrow> bool" where
  "is_digit_of radix c = (case digit_value c of Some v \<Rightarrow> v < radix | None \<Rightarrow> False)"

definition digits_value :: "int \<Rightarrow> string \<Rightarrow> int" where
  "digits_value radix ds = foldl (\<lambda>acc c. acc * radix + the (digit_value c)) 0 ds"

text \<open>
  Each parser returns the value of the longest literal at the head of its argument and the
  text after it; \<open>None\<close> when no literal starts there.
\<close>

definition parse_exponent :: "string \<Rightarrow> int \<times> string" where
  "parse_exponent s =
     (case s of
        c # cs \<Rightarrow>
          if c = CHR ''e'' \<or> c = CHR ''E'' then
            (let neg = (case cs of d # _ \<Rightarrow> d = CHR ''-'' | [] \<Rightarrow> False);
                 signed = (case cs of d # _ \<Rightarrow> d = CHR ''-'' \<or> d = CHR ''+'' | [] \<Rightarrow> False);
                 body = (if signed then tl cs else cs);
                 ds = takeWhile (is_digit_of 10) body
             in if ds = [] then (0, s)
                else (if neg then - digits_value 10 ds else digits_value 10 ds,
                      dropWhile (is_digit_of 10) body))
          else (0, s)
      | [] \<Rightarrow> (0, s))"

definition parse_unsigned_decimal :: "string \<Rightarrow> (rat \<times> string) option" where
  "parse_unsigned_decimal s =
     (let ip = takeWhile (is_digit_of 10) s;
          r1 = dropWhile (is_digit_of 10) s;
          dot = (case r1 of c # _ \<Rightarrow> c = CHR ''.'' | [] \<Rightarrow> False);
          fp = (if dot then takeWhile (is_digit_of 10) (tl r1) else []);
          r2 = (if dot then dropWhile (is_digit_of 10) (tl r1) else r1)
      in if ip = [] \<and> fp = [] then None
         else
           (let (ex, r3) = parse_exponent r2;
                mant = of_int (digits_value 10 ip)
                       + of_int (digits_value 10 fp) / 10 ^ length fp
            in Some (mant * 10 powi ex, r3)))"

definition parse_non_decimal :: "string \<Rightarrow> (rat \<times> string) option" where
  "parse_non_decimal s =
     (case s of
        z # p # body \<Rightarrow>
          (let radix = (if p = CHR ''x'' \<or> p = CHR ''X'' then 16
                        else if p = CHR ''o'' \<or> p = CHR ''O'' then 8
                        else if p = CHR ''b'' \<or> p = CHR ''B'' then 2 else 0 :: int);
               ds = takeWhile (is_digit_of radix) body
           in if z = CHR ''0'' \<and> ds \<noteq> []
              then Some (of_int (digits_value radix ds), dropWhile (is_digit_of radix) body)
              else None)
      | _ \<Rightarrow> None)"

definition parse_numeric_literal :: "string \<Rightarrow> (jsnum \<times> string) option" where
  "parse_numeric_literal s =
     (case parse_non_decimal s of
        Some (v, r) \<Rightarrow> Some (to_double v, r)
      | None \<Rightarrow>
          (let neg = (case s of c # _ \<Rightarrow> c = CHR ''-'' | [] \<Rightarrow> False);
               signed = (case s of c # _ \<Rightarrow> c = CHR ''-'' \<or> c = CHR ''+'' | [] \<Rightarrow> False);
               body = (if signed then tl s else s)
           in if take 8 body = ''Infinity''
              then Some (if neg then NegInf else PosInf, drop 8 body)
              else
                (case parse_unsigned_decimal body of
                   Some (v, r) \<Rightarrow> Some (to_double (if neg then - v else v), r)
                 | None \<Rightarrow> None)))"

definition StringToNumber :: "string \<Rightarrow> jsnum" where
  "StringToNumber str =
     (let s = trim_start str
      in if s = [] then Num 0
         else
           (case parse_numeric_literal s of
              Some (v, r) \<Rightarrow> if trim_start r = [] then v else NaN
            | None \<Rightarrow> NaN))"

text \<open>
  The values a field of the feed record can hold under its declared type
  \<open>number | string | undefined\<close>, the operator \<open>??\<close>, and \<open>Number(...)\<close>.
\<close>

datatype jsval = Undefined | Number jsnum | String string

definition nullish :: "jsval \<Rightarrow> jsval \<Rightarrow> jsval" where
  "nullish v d = (case v of Undefined \<Rightarrow> d | _ \<Rightarrow> v)"

definition ToNumber :: "jsval \<Rightarrow> jsnum" where
  "ToNumber v = (case v of Undefined \<Rightarrow> NaN | Number n \<Rightarrow> n | String s \<Rightarrow> StringToNumber s)"

subsection \<open>Dates\<close>

text \<open>
  A \<open>Date\<close> object holds a time value: whole milliseconds since the epoch, or \<open>NaN\<close>
  (an "Invalid Date"), here \<open>None\<close>.  \<open>getTime\<close> returns it as a Number.  Time values
  and clock readings lie within \<open>8.64e15\<close> of zero, so the difference of a clock reading
  and a time value is an integer below \<open>2^54\<close>; rounding it to binary64 is monotone and
  keeps \<open>60000\<close> fixed, hence the exact difference of \<open>js_sub\<close> decides
  \<open>now - t <= 60000\<close> as the rounded one does.
\<close>

datatype Date = DateValue (time_value: "int option")

definition TimeClip :: "int \<Rightarrow> int option" where
  "TimeClip t = (if 8640000000000000 < \<bar>t\<bar> then None else Some t)"

definition getTime :: "Date \<Rightarrow> jsnum" where
  "getTime d = (case time_value d of None \<Rightarrow> NaN | Some t \<Rightarrow> Num (of_int t))"

text \<open>
  \<open>new Date()\<close> and \<open>Date.now()\<close> read the host clock; the reading is an argument.
  \<open>new Date(string)\<close> asks the host's \<open>Date.parse\<close>, whose answer outside the ISO
  interchange format is left to the host by ECMAScript; the parser is an argument too.
\<close>

definition new_Date :: "int \<Rightarrow> Date" where
  "new_Date clock = DateValue (Some clock)"

definition Date_now :: "int \<Rightarrow> jsnum" where
  "Date_now clock = Num (of_int clock)"

definition new_Date_string :: "(string \<Rightarrow> int option) \<Rightarrow> string \<Rightarrow> Date" where
  "new_Date_string parse s =
     DateValue (case parse s of None \<Rightarrow> None | Some t \<Rightarrow> TimeClip t)"

text \<open>
  A reference parser for the examples: the UTC forms \<open>YYYY-MM-DD\<close>,
  \<open>YYYY-MM-DDTHH:mm:ssZ\<close> and \<open>YYYY-MM-DDTHH:mm:ss.sssZ\<close> of the interchange format
  (the last is what \<open>toISOString\<close> writes), with every field in range; any other string
  is not recognised.
\<close>

definition num_at :: "string \<Rightarrow> nat \<Rightarrow> nat \<Rightarrow> int option" where
  "num_at s i n =
     (let ds = take n (drop i s)
      in if length ds = n \<and> list_all (is_digit_of 10) ds then Some (digits_value 10 ds)
         else None)"

definition days_in_month :: "int \<Rightarrow> int \<Rightarrow> int" where
  "days_in_month y m =
     (if m = 2 then (if y mod 4 = 0 \<and> (y mod 100 \<noteq> 0 \<or> y mod 400 = 0) then 29 else 28)
      else if m \<in> {4, 6, 9, 11} then 30 else 31)"

definition days_from_civil :: "int \<Rightarrow> int \<Rightarrow> int \<Rightarrow> int" where
  "days_from_civil y m d =
     (let y' = (if m \<le> 2 then y - 1 else y);
          era = y' div 400;
          yoe = y' - era * 400;
          doy = (153 * (if 2 < m then m - 3 else m + 9) + 2) div 5 + d - 1;
          doe = yoe * 365 + yoe div 4 - yoe div 100 + doy
      in era * 146097 + doe - 719468)"

definition MakeTime :: "int \<Rightarrow> int \<Rightarrow> int \<Rightarrow> int \<Rightarrow> int \<Rightarrow> int" where
  "MakeTime days h mi sec ms = (((days * 24 + h) * 60 + mi) * 60 + sec) * 1000 + ms"

definition Date_parse_iso :: "string \<Rightarrow> int option" where
  "Date_parse_iso s =
     (case (num_at s 0 4, num_at s 5 2, num_at s 8 2) of
        (Some y, Some mo, Some d) \<Rightarrow>
          if take 1 (drop 4 s) = ''-'' \<and> take 1 (drop 7 s) = ''-''
             \<and> 1 \<le> mo \<and> mo \<le> 12 \<and> 1 \<le> d \<and> d \<le> days_in_month y mo
          then
            (if length s = 10 then Some (MakeTime (days_from_civil y mo d) 0 0 0 0)
             else
               (case (num_at s 11 2, num_at s 14 2, num_at s 17 2) of
                  (Some h, Some mi, Some sec) \<Rightarrow>
                    if take 1 (drop 10 s) = ''T'' \<and> take 1 (drop 13 s) = '':''
                       \<and> take 1 (drop 16 s) = '':'' \<and> h \<le> 23 \<and> mi \<le> 59 \<and> sec \<le> 59
                    then
                      (if drop 19 s = ''Z''
                       then Some (MakeTime (days_from_civil y mo d) h mi sec 0)
                       else
                         (case num_at s 20 3 of
                            Some ms \<Rightarrow>
                              if take 1 (drop 19 s) = ''.'' \<and> drop 23 s = ''Z''
                              then Some (MakeTime (days_from_civil y mo d) h mi sec ms)
                              else None
                          | None \<Rightarrow> None))
                    else None
                | _ \<Rightarrow> None))
          else None
      | _ \<Rightarrow> None)"

section \<open>Constants and status classification\<close>

definition TDS_SAFE_MAX :: jsnum where
  "TDS_SAFE_MAX = Num 500"

definition TEMP_SAFE_MIN :: jsnum where
  "TEMP_SAFE_MIN = Num 15"

definition TEMP_SAFE_MAX :: jsnum where
  "TEMP_SAFE_MAX = Num 30"

text \<open>
  The object literal returned by the two status memos.  The third field is called \<open>text\<close>
  in the source.  Strings are byte lists, so the em dash of the "no reading yet" label is
  its three UTF-8 bytes.
\<close>

record status =
  label :: string
  color :: string
  text_class :: string

definition em_dash :: string where
  "em_dash = [CHR 0xE2, CHR 0x80, CHR 0x94]"

definition tdsStatus :: "jsnum option \<Rightarrow> status" where
  "tdsStatus tds =
     (case tds of
        None \<Rightarrow> \<lparr>label = em_dash, color = ''bg-gray-300'', text_class = ''text-gray-700''\<rparr>
      | Some v \<Rightarrow>
          if js_le v TDS_SAFE_MAX
          then \<lparr>label = ''Safe'', color = ''bg-green-100'', text_class = ''text-green-700''\<rparr>
          else \<lparr>label = ''High'', color = ''bg-red-100'', text_class = ''text-red-700''\<rparr>)"

definition tempStatus :: "jsnum option \<Rightarrow> status" where
  "tempStatus temperature =
     (case temperature of
        None \<Rightarrow> \<lparr>label = em_dash, color = ''bg-gray-300'', text_class = ''text-gray-700''\<rparr>
      | Some v \<Rightarrow>
          if js_ge v TEMP_SAFE_MIN \<and> js_le v TEMP_SAFE_MAX
          then \<lparr>label = ''Safe'', color = ''bg-green-100'', text_class = ''text-green-700''\<rparr>
          else \<lparr>label = ''Out of range'', color = ''bg-amber-100'',
                 text_class = ''text-amber-700''\<rparr>)"

section \<open>The component state and the feed handlers\<close>

text \<open>
  \<open>HistoryPoint\<close> is the type of that name.  \<open>snapshot_val\<close> is the object that
  \<open>snapshot.val()\<close> returns, with its three optional fields (prefixed \<open>val_\<close>).
  \<open>App\<close> holds the five \<open>useState\<close> cells; the cells \<open>tds\<close> and \<open>temperature\<close>
  carry the suffix \<open>_state\<close>, and \<open>null\<close> is \<open>None\<close>.
\<close>

record HistoryPoint =
  time :: Date
  tds :: jsnum
  temperature :: jsnum

record snapshot_val =
  val_tds :: jsval
  val_temperature :: jsval
  val_timestamp :: "string option"

record App =
  tds_state :: "jsnum option"
  temperature_state :: "jsnum option"
  lastUpdated :: "Date option"
  online :: bool
  history :: "HistoryPoint list"

definition initial_state :: App where
  "initial_state =
     \<lparr>tds_state = None, temperature_state = None, lastUpdated = None, online = False,
      history = []\<rparr>"

text \<open>The three locals of the success callback (lines 56 to 58).\<close>

definition tdsVal :: "snapshot_val \<Rightarrow> jsnum" where
  "tdsVal v = ToNumber (nullish (val_tds v) (Number (Num 0)))"

definition tempVal :: "snapshot_val \<Rightarrow> jsnum" where
  "tempVal v = ToNumber (nullish (val_temperature v) (Number (Num 0)))"

text \<open>A string is truthy unless it is empty; \<open>undefined\<close> is falsy.\<close>

definition ts :: "(string \<Rightarrow> int option) \<Rightarrow> int \<Rightarrow> snapshot_val \<Rightarrow> Date" where
  "ts parse clock v =
     (case val_timestamp v of
        None \<Rightarrow> new_Date clock
      | Some s \<Rightarrow> if s \<noteq> [] then new_Date_string parse s else new_Date clock)"

text \<open>
  The updater passed to \<open>setHistory\<close>: \<open>clock\<close> is what \<open>Date.now()\<close> reads when the
  updater runs.
\<close>

definition in_window :: "jsnum \<Rightarrow> HistoryPoint \<Rightarrow> bool" where
  "in_window now point = js_le (js_sub now (getTime (time point))) (Num 60000)"

definition setHistory :: "int \<Rightarrow> HistoryPoint \<Rightarrow> HistoryPoint list \<Rightarrow> HistoryPoint list" where
  "setHistory clock point prev =
     (let now = Date_now clock;
          next = filter (in_window now) (prev @ [point])
      in next)"

text \<open>
  The success callback of \<open>onValue\<close>.  \<open>clock\<close> is the reading of \<open>new Date()\<close> in the
  callback, \<open>clock'\<close> the later reading of \<open>Date.now()\<close> in the updater; \<open>None\<close> is a
  \<open>null\<close> snapshot value.
\<close>

definition on_snapshot ::
  "(string \<Rightarrow> int option) \<Rightarrow> int \<Rightarrow> int \<Rightarrow> snapshot_val option \<Rightarrow> App \<Rightarrow> App" where
  "on_snapshot parse clock clock' val st =
     (case val of
        None \<Rightarrow> st\<lparr>online := False\<rparr>
      | Some v \<Rightarrow>
          st\<lparr>tds_state := Some (tdsVal v),
             temperature_state := Some (tempVal v),
             lastUpdated := Some (ts parse clock v),
             online := True,
             history :=
               setHistory clock'
                 \<lparr>time = ts parse clock v, tds = tdsVal v, temperature = tempVal v\<rparr>
                 (history st)\<rparr>)"

text \<open>The error callback of \<open>onValue\<close>.\<close>

definition on_error :: "App \<Rightarrow> App" where
  "on_error st = st\<lparr>online := False\<rparr>"

text \<open>Feed events are delivered one at a time, each with the clock readings it sees.\<close>

datatype event = Snapshot "snapshot_val option" int int | SubscriptionError

fun on_event :: "(string \<Rightarrow> int option) \<Rightarrow> App \<Rightarrow> event \<Rightarrow> App" where
  "on_event parse st (Snapshot val clock clock') = on_snapshot parse clock clock' val st"
| "on_event parse st SubscriptionError = on_error st"

definition run_events :: "(string \<Rightarrow> int option) \<Rightarrow> App \<Rightarrow> event list \<Rightarrow> App" where
  "run_events parse st evs = foldl (on_event parse) st evs"

text \<open>
  For statements about runs: the points that the snapshot events of a run hand to
  \<open>setHistory\<close>, in arrival order, and the clock readings of their updaters.
\<close>

fun arrivals :: "(string \<Rightarrow> int option) \<Rightarrow> event list \<Rightarrow> HistoryPoint list" where
  "arrivals parse [] = []"
| "arrivals parse (Snapshot (Some v) clock clock' # evs) =
     \<lparr>time = ts parse clock v, tds = tdsVal v, temperature = tempVal v\<rparr> # arrivals parse evs"
| "arrivals parse (_ # evs) = arrivals parse evs"

fun update_clocks :: "event list \<Rightarrow> int list" where
  "update_clocks [] = []"
| "update_clocks (Snapshot (Some v) clock clock' # evs) = clock' # update_clocks evs"
| "update_clocks (_ # evs) = update_clocks evs"

text \<open>
  The value shown on a card: \<open>x != null ? x.toFixed(1) : "--"\<close>, with the number
  formatter as an argument.
\<close>

definition card_value :: "(jsnum \<Rightarrow> string) \<Rightarrow> jsnum option \<Rightarrow> string" where
  "card_value toFixed1 x = (case x of None \<Rightarrow> ''--'' | Some n \<Rightarrow> toFixed1 n)"

section \<open>Properties\<close>

subsection \<open>Auxiliary facts\<close>

lemma in_window_iff:
  "in_window (Date_now clock) p =
     (case time_value (time p) of None \<Rightarrow> False | Some t \<Rightarrow> clock - t \<le> 60000)"
proof (cases "time_value (time p)")
  case None
  then show ?thesis by (simp add: in_window_def getTime_def Date_now_def)
next
  case (Some t)
  have "(of_int clock - of_int t \<le> (60000::rat)) = (clock - t \<le> 60000)"
    by (metis of_int_diff of_int_le_numeral_iff)
  with Some show ?thesis by (simp add: in_window_def getTime_def Date_now_def)
qed

lemma setHistory_filter:
  "setHistory clock point prev =
     filter (in_window (Date_now clock)) prev
     @ (if in_window (Date_now clock) point then [point] else [])"
  by (simp add: setHistory_def)

lemma history_on_snapshot_Some:
  "history (on_snapshot parse clock clock' (Some v) st) =
     setHistory clock' \<lparr>time = ts parse clock v, tds = tdsVal v, temperature = tempVal v\<rparr> (history st)"
  by (simp add: on_snapshot_def)

lemma run_events_snoc:
  "run_events parse st (evs @ [e]) = on_event parse (run_events parse st evs) e"
  by (simp add: run_events_def)

lemma run_events_Cons:
  "run_events parse st (e # evs) = run_events parse (on_event parse st e) evs"
  by (simp add: run_events_def)

lemma history_run_events:
  "\<exists>fresh. subseq fresh (arrivals parse evs) \<and>
     history (run_events parse st evs) =
       filter (\<lambda>p. list_all (\<lambda>c. in_window (Date_now c) p) (update_clocks evs)) (history st)
       @ fresh"
proof (induction evs arbitrary: st)
  case Nil
  show ?case by (simp add: run_events_def)
next
  case (Cons e evs)
  let ?P = "\<lambda>p. list_all (\<lambda>c. in_window (Date_now c) p) (update_clocks evs)"
  obtain fresh where fr: "subseq fresh (arrivals parse evs)"
    and h: "history (run_events parse (on_event parse st e) evs) =
              filter ?P (history (on_event parse st e)) @ fresh"
    using Cons.IH by blast
  show ?case
  proof (cases e)
    case SubscriptionError
    then show ?thesis using fr h
      by (auto simp: run_events_Cons on_error_def)
  next
    case (Snapshot val clock clock')
    show ?thesis
    proof (cases val)
      case None
      with Snapshot show ?thesis using fr h
        by (auto simp: run_events_Cons on_snapshot_def)
    next
      case (Some v)
      let ?pt = "\<lparr>time = ts parse clock v, tds = tdsVal v, temperature = tempVal v\<rparr>"
      let ?new = "filter ?P (if in_window (Date_now clock') ?pt then [?pt] else [])"
      have ev: "on_event parse st e = on_snapshot parse clock clock' (Some v) st"
        using Snapshot Some by simp
      have "history (run_events parse st (e # evs)) =
              filter ?P (setHistory clock' ?pt (history st)) @ fresh"
        using h unfolding run_events_Cons ev history_on_snapshot_Some .
      also have "\<dots> = filter ?P (filter (in_window (Date_now clock')) (history st))
                        @ (?new @ fresh)"
        unfolding setHistory_filter filter_append append_assoc ..
      finally have eq: "history (run_events parse st (e # evs)) =
          filter (\<lambda>p. in_window (Date_now clock') p \<and> ?P p) (history st) @ (?new @ fresh)"
        unfolding filter_filter .
      have uc: "update_clocks (e # evs) = clock' # update_clocks evs"
        using Snapshot Some by simp
      have ar: "arrivals parse (e # evs) = ?pt # arrivals parse evs"
        using Snapshot Some by simp
      have one: "subseq ?new [?pt]" by simp
      have sub: "subseq (?new @ fresh) (arrivals parse (e # evs))"
        unfolding ar using list_emb_append_mono [OF one fr] by simp
      show ?thesis
        unfolding uc list.pred_inject using eq sub by blast
    qed
  qed
qed

lemma arrivals_append:
  "arrivals parse (xs @ ys) = arrivals parse xs @ arrivals parse ys"
  by (induction parse xs rule: arrivals.induct) simp_all

lemma update_clocks_append:
  "update_clocks (xs @ ys) = update_clocks xs @ update_clocks ys"
  by (induction xs rule: update_clocks.induct) simp_all

lemma length_arrivals: "length (arrivals parse evs) = length (update_clocks evs)"
  by (induction parse evs rule: arrivals.induct) simp_all

lemma in_window_mono:
  "c \<le> c' \<Longrightarrow> in_window (Date_now c') p \<Longrightarrow> in_window (Date_now c) p"
  by (auto simp: in_window_iff split: option.splits)

lemma history_sorted_clocks:
  assumes "history st = []"
  shows "sorted (update_clocks evs) \<Longrightarrow>
     history (run_events parse st evs) =
       (if update_clocks evs = [] then []
        else filter (in_window (Date_now (last (update_clocks evs)))) (arrivals parse evs))"
proof (induction evs rule: rev_induct)
  case Nil
  show ?case using assms by (simp add: run_events_def)
next
  case (snoc e evs)
  have srt: "sorted (update_clocks evs)"
    using snoc.prems by (simp add: update_clocks_append sorted_append)
  note IH = snoc.IH [OF srt]
  show ?case
  proof (cases e)
    case SubscriptionError
    then show ?thesis using IH
      by (simp add: run_events_snoc update_clocks_append arrivals_append on_error_def)
  next
    case (Snapshot val clock clock')
    show ?thesis
    proof (cases val)
      case None
      with Snapshot show ?thesis using IH
        by (simp add: run_events_snoc update_clocks_append arrivals_append on_snapshot_def)
    next
      case (Some v)
      let ?pt = "\<lparr>time = ts parse clock v, tds = tdsVal v, temperature = tempVal v\<rparr>"
      let ?W = "in_window (Date_now clock')"
      have uc: "update_clocks (evs @ [e]) = update_clocks evs @ [clock']"
        using Snapshot Some by (simp add: update_clocks_append)
      have ar: "arrivals parse (evs @ [e]) = arrivals parse evs @ [?pt]"
        using Snapshot Some by (simp add: arrivals_append)
      have hist: "history (run_events parse st (evs @ [e])) =
          filter ?W (history (run_events parse st evs)) @ filter ?W [?pt]"
        using Snapshot Some
        by (simp add: run_events_snoc history_on_snapshot_Some setHistory_def)
      have old: "filter ?W (history (run_events parse st evs)) = filter ?W (arrivals parse evs)"
      proof (cases "update_clocks evs = []")
        case True
        then have "arrivals parse evs = []"
          using length_arrivals [of parse evs] by simp
        with True IH show ?thesis by simp
      next
        case False
        then have le: "last (update_clocks evs) \<le> clock'"
          using snoc.prems unfolding uc by (simp add: sorted_append)
        have "filter ?W (filter (in_window (Date_now (last (update_clocks evs))))
                (arrivals parse evs)) = filter ?W (arrivals parse evs)"
          unfolding filter_filter
          by (rule filter_cong) (auto dest: in_window_mono [OF le])
        with False IH show ?thesis by simp
      qed
      show ?thesis
        unfolding hist old uc ar by simp
    qed
  qed
qed

lemma new_point_evicted:
  assumes "\<not> in_window (Date_now clock') pt"
  shows "setHistory clock' pt prev = filter (in_window (Date_now clock')) prev"
    and "pt \<notin> set (setHistory clock' pt prev)"
  using assms by (simp_all add: setHistory_filter)

lemma stale_not_in_window:
  assumes "parse s = Some t" and "60000 < clock' - t"
  shows "\<not> in_window (Date_now clock') \<lparr>time = new_Date_string parse s, tds = a, temperature = b\<rparr>"
  using assms by (simp add: in_window_iff new_Date_string_def TimeClip_def)

lemma Date_parse_iso_example:
  "Date_parse_iso ''2024-01-01T00:00:00.000Z'' = Some 1704067200000"
  by code_simp

lemma Date_parse_iso_abc: "Date_parse_iso ''abc'' = None"
  by code_simp

lemma StringToNumber_abc: "StringToNumber ''abc'' = NaN"
  by code_simp

text \<open>
  The value of a literal is never \<open>NaN\<close>, so \<open>StringToNumber\<close> is \<open>NaN\<close> exactly
  on the text that, trimmed, is neither empty nor wholly one numeric literal.
\<close>

lemma to_double_not_NaN: "to_double q \<noteq> NaN"
  by (simp add: to_double_def Let_def)

lemma parse_numeric_literal_not_NaN:
  "parse_numeric_literal s = Some (v, r) \<Longrightarrow> v \<noteq> NaN"
  by (auto simp: parse_numeric_literal_def Let_def to_double_not_NaN
      split: option.splits prod.splits if_splits)

lemma StringToNumber_NaN_iff:
  "StringToNumber s = NaN \<longleftrightarrow>
     trim_start s \<noteq> [] \<and>
     (case parse_numeric_literal (trim_start s) of
        None \<Rightarrow> True
      | Some (v, r) \<Rightarrow> trim_start r \<noteq> [])"
  by (auto simp: StringToNumber_def Let_def dest: parse_numeric_literal_not_NaN
      split: option.splits prod.splits)

lemma parse_numeric_literal_first_char:
  assumes "\<not> is_digit_of 10 c" and "c \<notin> {CHR ''+'', CHR ''-'', CHR ''.'', CHR ''I''}"
  shows "parse_numeric_literal (c # cs) = None"
proof -
  have z: "c \<noteq> CHR ''0''"
    using assms(1) by (auto simp: is_digit_of_def digit_value_def)
  have nd: "parse_non_decimal (c # cs) = None"
    using z by (simp add: parse_non_decimal_def Let_def split: list.splits)
  have ud: "parse_unsigned_decimal (c # cs) = None"
    using assms by (simp add: parse_unsigned_decimal_def Let_def)
  have inf: "take 8 (c # cs) \<noteq> ''Infinity''"
    using assms(2) by auto
  show ?thesis
    using assms(2) nd ud inf by (simp add: parse_numeric_literal_def Let_def)
qed

lemma StringToNumber_first_char:
  assumes "trim_start s = c # cs" and "\<not> is_digit_of 10 c"
    and "c \<notin> {CHR ''+'', CHR ''-'', CHR ''.'', CHR ''I''}"
  shows "StringToNumber s = NaN"
  using assms parse_numeric_literal_first_char [OF assms(2,3), of cs]
  by (simp add: StringToNumber_NaN_iff)

lemma StringToNumber_12px: "StringToNumber ''12px'' = NaN"
  by code_simp

lemma StringToNumber_blank: "trim_start s = [] \<Longrightarrow> StringToNumber s = Num 0"
  by (simp add: StringToNumber_def)

text \<open>The binary64 values of the literals \<open>500.1\<close>, \<open>14.999\<close> and \<open>30.001\<close>.\<close>

lemma to_double_500_1: "to_double (5001 / 10) = Num (4398926120406221 / 8796093022208)"
  by code_simp

lemma to_double_14_999: "to_double (14999 / 1000) = Num (8443686351366259 / 562949953421312)"
  by code_simp

lemma to_double_30_001: "to_double (30001 / 1000) = Num (8444530776296391 / 281474976710656)"
  by code_simp

subsection \<open>Status classification\<close>

text \<open>
  C3.  With a reading present, the TDS status label is "Safe" exactly when
  \<open>tds <= 500\<close> and "High" in every other case (also for \<open>NaN\<close>, for which the
  comparison is false); 500 is safe, 500.1 is high, as the exact decimal and as the binary64
  value of the literal; with no reading the label is the dash.
\<close>

theorem tdsStatus_safe_iff:
  "(label (tdsStatus (Some v)) = ''Safe'' \<longleftrightarrow> js_le v (Num 500))
   \<and> label (tdsStatus (Some v)) = (if js_le v (Num 500) then ''Safe'' else ''High'')
   \<and> (label (tdsStatus (Some (Num x))) = ''Safe'' \<longleftrightarrow> x \<le> 500)
   \<and> label (tdsStatus (Some (Num 500))) = ''Safe''
   \<and> label (tdsStatus (Some (Num (5001 / 10)))) = ''High''
   \<and> label (tdsStatus (Some (to_double (5001 / 10)))) = ''High''
   \<and> label (tdsStatus None) = em_dash
   \<and> em_dash \<noteq> ''Safe'' \<and> em_dash \<noteq> ''High''"
  by (simp add: tdsStatus_def TDS_SAFE_MAX_def em_dash_def to_double_500_1)

text \<open>
  C4.  With a reading present, the temperature status label is "Safe" exactly when
  \<open>15 <= temperature <= 30\<close>, both ends included, and "Out of range" in every other case;
  14.999 and 30.001 are out of range, as exact decimals and as the binary64 values of the
  literals; with no reading the label is the dash.
\<close>

theorem tempStatus_safe_iff:
  "(label (tempStatus (Some v)) = ''Safe'' \<longleftrightarrow> js_le (Num 15) v \<and> js_le v (Num 30))
   \<and> label (tempStatus (Some v)) =
       (if js_le (Num 15) v \<and> js_le v (Num 30) then ''Safe'' else ''Out of range'')
   \<and> (label (tempStatus (Some (Num x))) = ''Safe'' \<longleftrightarrow> 15 \<le> x \<and> x \<le> 30)
   \<and> label (tempStatus (Some (Num 15))) = ''Safe''
   \<and> label (tempStatus (Some (Num 30))) = ''Safe''
   \<and> label (tempStatus (Some (Num (14999 / 1000)))) = ''Out of range''
   \<and> label (tempStatus (Some (Num (30001 / 1000)))) = ''Out of range''
   \<and> label (tempStatus (Some (to_double (14999 / 1000)))) = ''Out of range''
   \<and> label (tempStatus (Some (to_double (30001 / 1000)))) = ''Out of range''
   \<and> label (tempStatus None) = em_dash
   \<and> em_dash \<noteq> ''Safe'' \<and> em_dash \<noteq> ''Out of range''"
  by (simp add: tempStatus_def js_ge_def TEMP_SAFE_MIN_def TEMP_SAFE_MAX_def em_dash_def
      to_double_14_999 to_double_30_001)

subsection \<open>The initial state\<close>

text \<open>
  C9.  Before any feed event, both value cells are \<open>null\<close> (the cards show \<open>--\<close>),
  both status memos return the dash entry, and \<open>online\<close> is false.
\<close>

theorem initial_state_unknown:
  "tds_state initial_state = None
   \<and> temperature_state initial_state = None
   \<and> card_value toFixed1 (tds_state initial_state) = ''--''
   \<and> card_value toFixed1 (temperature_state initial_state) = ''--''
   \<and> tdsStatus (tds_state initial_state)
       = \<lparr>label = em_dash, color = ''bg-gray-300'', text_class = ''text-gray-700''\<rparr>
   \<and> tempStatus (temperature_state initial_state)
       = \<lparr>label = em_dash, color = ''bg-gray-300'', text_class = ''text-gray-700''\<rparr>
   \<and> online initial_state = False
   \<and> lastUpdated initial_state = None
   \<and> history initial_state = []
   \<and> run_events parse initial_state [] = initial_state"
  by (simp add: initial_state_def card_value_def tdsStatus_def tempStatus_def run_events_def)

subsection \<open>Normalising a snapshot value\<close>

text \<open>
  C2, as the code has it.  \<open>Number(value.tds ?? 0)\<close> cannot throw for a field of the
  declared type, so the callback has no error branch.  An absent field becomes \<open>0\<close>, a
  number is kept as it is, and a string goes through \<open>StringToNumber\<close>: blank text gives
  \<open>0\<close>, and the result is \<open>NaN\<close>, not \<open>0\<close>, exactly for the text that, with its white
  space trimmed, is not empty and not wholly one numeric literal; this is so for every text
  whose first non-blank character is not a digit, a sign, a dot or \<open>I\<close>.  A normalised
  field is \<open>NaN\<close> exactly when the raw field is the number \<open>NaN\<close> or such a string, and
  finite exactly when the raw field is absent, a finite number, or a string whose conversion
  is finite.  The normalised values are stored in the cells, and in the buffer whenever the
  new point is within the window.  The record \<open>{tds: "abc", temperature: undefined}\<close>
  gives \<open>tds = NaN\<close>, \<open>temperature = 0\<close>.
\<close>

theorem normalization_coercion:
  "tdsVal v = (case val_tds v of Undefined \<Rightarrow> Num 0 | Number n \<Rightarrow> n
                | String s \<Rightarrow> StringToNumber s)
   \<and> tempVal v = (case val_temperature v of Undefined \<Rightarrow> Num 0 | Number n \<Rightarrow> n
                   | String s \<Rightarrow> StringToNumber s)
   \<and> isFinite (tdsVal v) = (case val_tds v of Undefined \<Rightarrow> True | Number n \<Rightarrow> isFinite n
                              | String s \<Rightarrow> isFinite (StringToNumber s))
   \<and> isFinite (tempVal v) = (case val_temperature v of Undefined \<Rightarrow> True
                               | Number n \<Rightarrow> isFinite n
                               | String s \<Rightarrow> isFinite (StringToNumber s))
   \<and> tds_state (on_snapshot parse clock clock' (Some v) st) = Some (tdsVal v)
   \<and> temperature_state (on_snapshot parse clock clock' (Some v) st) = Some (tempVal v)
   \<and> (StringToNumber s = NaN \<longleftrightarrow>
        trim_start s \<noteq> [] \<and>
        (case parse_numeric_literal (trim_start s) of
           None \<Rightarrow> True
         | Some (x, r) \<Rightarrow> trim_start r \<noteq> []))
   \<and> (trim_start s = c # cs \<and> \<not> is_digit_of 10 c
        \<and> c \<notin> {CHR ''+'', CHR ''-'', CHR ''.'', CHR ''I''}
        \<longrightarrow> StringToNumber s = NaN)
   \<and> (trim_start s = [] \<longrightarrow> StringToNumber s = Num 0)
   \<and> (tdsVal v = NaN \<longleftrightarrow>
        (case val_tds v of Undefined \<Rightarrow> False | Number n \<Rightarrow> n = NaN
         | String s' \<Rightarrow> StringToNumber s' = NaN))
   \<and> (tempVal v = NaN \<longleftrightarrow>
        (case val_temperature v of Undefined \<Rightarrow> False | Number n \<Rightarrow> n = NaN
         | String s' \<Rightarrow> StringToNumber s' = NaN))
   \<and> (val_tds v = String s \<and> StringToNumber s = NaN
        \<longrightarrow> tdsVal v \<noteq> Num 0 \<and> \<not> isFinite (tdsVal v))
   \<and> (val_temperature v = String s \<and> StringToNumber s = NaN
        \<longrightarrow> tempVal v \<noteq> Num 0 \<and> \<not> isFinite (tempVal v))
   \<and> (in_window (Date_now clock')
          \<lparr>time = ts parse clock v, tds = tdsVal v, temperature = tempVal v\<rparr>
        \<longrightarrow> history (on_snapshot parse clock clock' (Some v) st) =
              filter (in_window (Date_now clock')) (history st)
              @ [\<lparr>time = ts parse clock v, tds = tdsVal v, temperature = tempVal v\<rparr>])
   \<and> StringToNumber ''abc'' = NaN
   \<and> StringToNumber ''12px'' = NaN
   \<and> tdsVal \<lparr>val_tds = String ''abc'', val_temperature = Undefined, val_timestamp = None\<rparr>
       = NaN
   \<and> tempVal \<lparr>val_tds = String ''abc'', val_temperature = Undefined, val_timestamp = None\<rparr>
       = Num 0"
proof -
  have a: "tdsVal v = (case val_tds v of Undefined \<Rightarrow> Num 0 | Number n \<Rightarrow> n
                | String s \<Rightarrow> StringToNumber s)" for v
    by (simp add: tdsVal_def nullish_def ToNumber_def split: jsval.split)
  have b: "tempVal v = (case val_temperature v of Undefined \<Rightarrow> Num 0 | Number n \<Rightarrow> n
                   | String s \<Rightarrow> StringToNumber s)" for v
    by (simp add: tempVal_def nullish_def ToNumber_def split: jsval.split)
  have c: "isFinite (tdsVal v) = (case val_tds v of Undefined \<Rightarrow> True | Number n \<Rightarrow> isFinite n
                              | String s \<Rightarrow> isFinite (StringToNumber s))"
    unfolding a by (simp add: isFinite_def split: jsval.split)
  have d: "isFinite (tempVal v) = (case val_temperature v of Undefined \<Rightarrow> True
                               | Number n \<Rightarrow> isFinite n
                               | String s \<Rightarrow> isFinite (StringToNumber s))"
    unfolding b by (simp add: isFinite_def split: jsval.split)
  have e: "tds_state (on_snapshot parse clock clock' (Some v) st) = Some (tdsVal v)"
    "temperature_state (on_snapshot parse clock clock' (Some v) st) = Some (tempVal v)"
    by (simp_all add: on_snapshot_def)
  have f: "tdsVal \<lparr>val_tds = String ''abc'', val_temperature = Undefined,
                   val_timestamp = None\<rparr> = NaN"
    unfolding a by (simp add: StringToNumber_abc)
  have g: "tempVal \<lparr>val_tds = String ''abc'', val_temperature = Undefined,
                    val_timestamp = None\<rparr> = Num 0"
    unfolding b by simp
  have h: "trim_start s = c # cs \<and> \<not> is_digit_of 10 c
        \<and> c \<notin> {CHR ''+'', CHR ''-'', CHR ''.'', CHR ''I''}
        \<longrightarrow> StringToNumber s = NaN"
    using StringToNumber_first_char [of s c cs] by blast
  have i: "trim_start s = [] \<longrightarrow> StringToNumber s = Num 0"
    using StringToNumber_blank by blast
  have j: "tdsVal v = NaN \<longleftrightarrow>
        (case val_tds v of Undefined \<Rightarrow> False | Number n \<Rightarrow> n = NaN
         | String s' \<Rightarrow> StringToNumber s' = NaN)"
    unfolding a by (simp split: jsval.split)
  have k: "tempVal v = NaN \<longleftrightarrow>
        (case val_temperature v of Undefined \<Rightarrow> False | Number n \<Rightarrow> n = NaN
         | String s' \<Rightarrow> StringToNumber s' = NaN)"
    unfolding b by (simp split: jsval.split)
  have l: "val_tds v = String s \<and> StringToNumber s = NaN
        \<longrightarrow> tdsVal v \<noteq> Num 0 \<and> \<not> isFinite (tdsVal v)"
    unfolding a by (simp add: isFinite_def)
  have m: "val_temperature v = String s \<and> StringToNumber s = NaN
        \<longrightarrow> tempVal v \<noteq> Num 0 \<and> \<not> isFinite (tempVal v)"
    unfolding b by (simp add: isFinite_def)
  have n: "in_window (Date_now clock')
          \<lparr>time = ts parse clock v, tds = tdsVal v, temperature = tempVal v\<rparr>
        \<longrightarrow> history (on_snapshot parse clock clock' (Some v) st) =
              filter (in_window (Date_now clock')) (history st)
              @ [\<lparr>time = ts parse clock v, tds = tdsVal v, temperature = tempVal v\<rparr>]"
    unfolding history_on_snapshot_Some setHistory_filter by simp
  show ?thesis
    using a [of v] b [of v] c d e StringToNumber_NaN_iff [of s] h i j k l m n
      StringToNumber_abc StringToNumber_12px f g
    by blast
qed

text \<open>
  The text \<open>abc\<close> begins with a letter and converts to \<open>NaN\<close>; a blank string converts
  to \<open>0\<close>; the reading with these two fields, taken one second before the update, is
  appended to the buffer with \<open>tds = NaN\<close>.
\<close>

theorem normalization_coercion_witness:
  "trim_start ''abc'' = CHR ''a'' # ''bc''
   \<and> \<not> is_digit_of 10 CHR ''a''
   \<and> StringToNumber ''abc'' = NaN
   \<and> StringToNumber '' '' = Num 0
   \<and> tdsVal \<lparr>val_tds = String ''abc'', val_temperature = String '' '', val_timestamp = None\<rparr>
       \<noteq> Num 0
   \<and> history (on_snapshot Date_parse_iso 1000 2000
        (Some \<lparr>val_tds = String ''abc'', val_temperature = String '' '',
               val_timestamp = None\<rparr>)
        \<lparr>tds_state = None, temperature_state = None, lastUpdated = None, online = False,
         history = [\<lparr>time = DateValue (Some 500), tds = Num 300, temperature = Num 22\<rparr>]\<rparr>)
       = [\<lparr>time = DateValue (Some 500), tds = Num 300, temperature = Num 22\<rparr>,
          \<lparr>time = DateValue (Some 1000), tds = NaN, temperature = Num 0\<rparr>]"
proof -
  let ?v = "\<lparr>val_tds = String ''abc'', val_temperature = String '' '',
             val_timestamp = None\<rparr>"
  let ?st = "\<lparr>tds_state = None, temperature_state = None, lastUpdated = None,
              online = False,
              history = [\<lparr>time = DateValue (Some 500), tds = Num 300,
                          temperature = Num 22\<rparr>]\<rparr>"
  note inst = normalization_coercion [where v = ?v and s = "''abc''" and c = "CHR ''a''"
      and cs = "''bc''" and parse = Date_parse_iso and clock = 1000 and clock' = 2000
      and st = ?st]
  note blank = normalization_coercion [where s = "'' ''"]
  have t: "trim_start ''abc'' = CHR ''a'' # ''bc''" by simp
  have nd: "\<not> is_digit_of 10 CHR ''a''" by (simp add: is_digit_of_def digit_value_def)
  have ns: "CHR ''a'' \<notin> {CHR ''+'', CHR ''-'', CHR ''.'', CHR ''I''}" by simp
  have abc: "StringToNumber ''abc'' = NaN"
    using t nd ns inst by blast
  have bl: "trim_start '' '' = []" by simp
  have sp: "StringToNumber '' '' = Num 0"
    using bl blank by blast
  have tv: "tdsVal ?v = NaN"
    using abc inst by simp
  have tpv: "tempVal ?v = Num 0"
    using sp inst by simp
  have tsv: "ts Date_parse_iso 1000 ?v = DateValue (Some 1000)"
    by (simp add: ts_def new_Date_def)
  have w: "in_window (Date_now 2000)
             \<lparr>time = ts Date_parse_iso 1000 ?v, tds = tdsVal ?v, temperature = tempVal ?v\<rparr>"
    unfolding tsv by (simp add: in_window_iff)
  have "history (on_snapshot Date_parse_iso 1000 2000 (Some ?v) ?st) =
      filter (in_window (Date_now 2000)) (history ?st)
      @ [\<lparr>time = ts Date_parse_iso 1000 ?v, tds = tdsVal ?v, temperature = tempVal ?v\<rparr>]"
    using w inst by blast
  then have hist: "history (on_snapshot Date_parse_iso 1000 2000 (Some ?v) ?st) =
       [\<lparr>time = DateValue (Some 500), tds = Num 300, temperature = Num 22\<rparr>,
        \<lparr>time = DateValue (Some 1000), tds = NaN, temperature = Num 0\<rparr>]"
    unfolding tsv tv tpv by (simp add: in_window_iff)
  have ne: "tdsVal ?v \<noteq> Num 0"
    unfolding tv by simp
  show ?thesis
    using t nd abc sp ne hist by blast
qed

text \<open>
  The record \<open>{tds: "abc", temperature: undefined}\<close>: the normalised \<open>tds\<close> is not
  \<open>0\<close> and not finite, and the \<open>NaN\<close> is stored in the history buffer.
\<close>

theorem normalization_abc_counterexample:
  "tdsVal \<lparr>val_tds = String ''abc'', val_temperature = Undefined, val_timestamp = None\<rparr>
     \<noteq> Num 0
   \<and> \<not> isFinite
         (tdsVal \<lparr>val_tds = String ''abc'', val_temperature = Undefined,
                  val_timestamp = None\<rparr>)
   \<and> history (on_snapshot Date_parse_iso 1000 1000
        (Some \<lparr>val_tds = String ''abc'', val_temperature = Undefined, val_timestamp = None\<rparr>)
        initial_state)
       = [\<lparr>time = DateValue (Some 1000), tds = NaN, temperature = Num 0\<rparr>]"
  by (simp add: tdsVal_def tempVal_def nullish_def ToNumber_def StringToNumber_abc
      isFinite_def on_snapshot_def initial_state_def ts_def new_Date_def setHistory_def
      in_window_iff)

text \<open>
  C5, as the code has it.  The timestamp of the normalised reading is the clock reading
  when the \<open>timestamp\<close> field is absent or the empty string, and \<open>new Date(timestamp)\<close>
  for every non-empty string: the parsed time when the string parses, and an Invalid Date
  (not the clock reading) when it does not.
\<close>

theorem ts_cases:
  "(val_timestamp v = None \<or> val_timestamp v = Some [] \<longrightarrow> ts parse clock v = new_Date clock)
   \<and> (val_timestamp v = Some s \<and> s \<noteq> [] \<longrightarrow> ts parse clock v = new_Date_string parse s)
   \<and> (val_timestamp v = Some s \<and> s \<noteq> [] \<and> parse s = Some t \<and> \<bar>t\<bar> \<le> 8640000000000000
        \<longrightarrow> ts parse clock v = DateValue (Some t))
   \<and> (val_timestamp v = Some s \<and> s \<noteq> [] \<and> parse s = None
        \<longrightarrow> ts parse clock v = DateValue None \<and> getTime (ts parse clock v) = NaN
            \<and> ts parse clock v \<noteq> new_Date clock)"
  by (auto simp: ts_def new_Date_def new_Date_string_def TimeClip_def getTime_def)

text \<open>
  The four cases at concrete records, with the reference parser.
\<close>

theorem ts_cases_witness:
  "ts Date_parse_iso 1704067261000
     \<lparr>val_tds = Number (Num 300), val_temperature = Number (Num 22), val_timestamp = None\<rparr>
     = new_Date 1704067261000
   \<and> ts Date_parse_iso 1704067261000
       \<lparr>val_tds = Number (Num 300), val_temperature = Number (Num 22),
        val_timestamp = Some []\<rparr>
     = new_Date 1704067261000
   \<and> Date_parse_iso ''2024-01-01T00:00:00.000Z'' = Some 1704067200000
   \<and> ts Date_parse_iso 1704067261000
       \<lparr>val_tds = Number (Num 300), val_temperature = Number (Num 22),
        val_timestamp = Some ''2024-01-01T00:00:00.000Z''\<rparr>
     = DateValue (Some 1704067200000)
   \<and> Date_parse_iso ''abc'' = None
   \<and> ts Date_parse_iso 1704067261000
       \<lparr>val_tds = Number (Num 300), val_temperature = Number (Num 22),
        val_timestamp = Some ''abc''\<rparr>
     = DateValue None"
proof -
  let ?v1 = "\<lparr>val_tds = Number (Num 300), val_temperature = Number (Num 22),
              val_timestamp = None\<rparr>"
  let ?v2 = "\<lparr>val_tds = Number (Num 300), val_temperature = Number (Num 22),
              val_timestamp = Some []\<rparr>"
  let ?v3 = "\<lparr>val_tds = Number (Num 300), val_temperature = Number (Num 22),
              val_timestamp = Some ''2024-01-01T00:00:00.000Z''\<rparr>"
  let ?v4 = "\<lparr>val_tds = Number (Num 300), val_temperature = Number (Num 22),
              val_timestamp = Some ''abc''\<rparr>"
  have p3: "Date_parse_iso ''2024-01-01T00:00:00.000Z'' = Some 1704067200000"
    by (rule Date_parse_iso_example)
  have p4: "Date_parse_iso ''abc'' = None"
    by (rule Date_parse_iso_abc)
  have h1: "val_timestamp ?v1 = None \<or> val_timestamp ?v1 = Some []"
    by simp
  have h2: "val_timestamp ?v2 = None \<or> val_timestamp ?v2 = Some []"
    by simp
  have h3: "val_timestamp ?v3 = Some ''2024-01-01T00:00:00.000Z''
      \<and> ''2024-01-01T00:00:00.000Z'' \<noteq> []
      \<and> Date_parse_iso ''2024-01-01T00:00:00.000Z'' = Some 1704067200000
      \<and> \<bar>1704067200000\<bar> \<le> (8640000000000000 :: int)"
    using p3 by simp
  have h4: "val_timestamp ?v4 = Some ''abc'' \<and> ''abc'' \<noteq> [] \<and> Date_parse_iso ''abc'' = None"
    using p4 by simp
  have w1: "ts Date_parse_iso 1704067261000 ?v1 = new_Date 1704067261000"
    using h1 ts_cases [where v = ?v1 and parse = Date_parse_iso and clock = 1704067261000]
    by blast
  have w2: "ts Date_parse_iso 1704067261000 ?v2 = new_Date 1704067261000"
    using h2 ts_cases [where v = ?v2 and parse = Date_parse_iso and clock = 1704067261000]
    by blast
  have w3: "ts Date_parse_iso 1704067261000 ?v3 = DateValue (Some 1704067200000)"
    using h3 ts_cases [where v = ?v3 and s = "''2024-01-01T00:00:00.000Z''"
        and t = 1704067200000 and parse = Date_parse_iso and clock = 1704067261000]
    by blast
  have w4: "ts Date_parse_iso 1704067261000 ?v4 = DateValue None"
    using h4 ts_cases [where v = ?v4 and s = "''abc''" and parse = Date_parse_iso
        and clock = 1704067261000]
    by blast
  show ?thesis
    using w1 w2 p3 w3 p4 w4 by blast
qed

text \<open>
  A timestamp string that does not parse: the reading carries an Invalid Date, which
  differs from the date of the clock reading.
\<close>

theorem ts_unparsed_counterexample:
  "Date_parse_iso ''abc'' = None
   \<and> ts Date_parse_iso 1704067261000
       \<lparr>val_tds = Number (Num 300), val_temperature = Number (Num 22),
        val_timestamp = Some ''abc''\<rparr>
     = DateValue None
   \<and> ts Date_parse_iso 1704067261000
       \<lparr>val_tds = Number (Num 300), val_temperature = Number (Num 22),
        val_timestamp = Some ''abc''\<rparr>
     \<noteq> new_Date 1704067261000"
  by (simp add: Date_parse_iso_abc ts_def new_Date_string_def new_Date_def)

subsection \<open>Going offline\<close>

text \<open>
  C6.  A \<open>null\<close> snapshot value sets \<open>online\<close> to false and changes nothing else: the
  history buffer is the same list, with no append and no eviction, and so are the value
  cells.  This holds in every state, in particular right after a successful reading, which
  had set \<open>online\<close> to true.
\<close>

theorem null_snapshot_offline:
  "on_snapshot parse clock clock' None st = st\<lparr>online := False\<rparr>
   \<and> online (on_snapshot parse clock clock' None st) = False
   \<and> history (on_snapshot parse clock clock' None st) = history st
   \<and> tds_state (on_snapshot parse clock clock' None st) = tds_state st
   \<and> temperature_state (on_snapshot parse clock clock' None st) = temperature_state st
   \<and> lastUpdated (on_snapshot parse clock clock' None st) = lastUpdated st
   \<and> online (on_snapshot parse c0 c0' (Some v) st0) = True
   \<and> online (run_events parse st0 [Snapshot (Some v) c0 c0', Snapshot None clock clock'])
       = False
   \<and> history (run_events parse st0 [Snapshot (Some v) c0 c0', Snapshot None clock clock'])
       = history (run_events parse st0 [Snapshot (Some v) c0 c0'])"
  by (simp add: on_snapshot_def run_events_def)

text \<open>
  C7.  The error callback sets \<open>online\<close> to false and changes no other cell: the history
  buffer, the two current values and the time of the last update stay as they were, in
  every state and at the end of every run.
\<close>

theorem on_error_offline:
  "on_error st = st\<lparr>online := False\<rparr>
   \<and> online (on_error st) = False
   \<and> history (on_error st) = history st
   \<and> tds_state (on_error st) = tds_state st
   \<and> temperature_state (on_error st) = temperature_state st
   \<and> lastUpdated (on_error st) = lastUpdated st
   \<and> on_event parse st SubscriptionError = on_error st
   \<and> history (run_events parse st (evs @ [SubscriptionError]))
       = history (run_events parse st evs)
   \<and> online (run_events parse st (evs @ [SubscriptionError])) = False"
  by (simp add: on_error_def run_events_def)

subsection \<open>The history window\<close>

text \<open>
  C1.  After \<open>setHistory\<close> has run with clock reading \<open>now\<close>, the buffer holds exactly
  the elements of the previous buffer and the new point whose time value \<open>t\<close> satisfies
  \<open>now - t <= 60000\<close>, in their order and multiplicity: an element of age exactly 60000 ms
  stays, every older one is gone (an Invalid Date never satisfies the comparison).  The same
  bound holds for the buffer after the last snapshot of any run of feed events; and when
  the clock readings of a run from an empty buffer never decrease, the buffer holds exactly
  the points that arrived so far and are within 60000 ms of the last reading.
\<close>

theorem setHistory_window:
  "set (setHistory clock point prev) =
     {p \<in> set (prev @ [point]).
        case time_value (time p) of None \<Rightarrow> False | Some t \<Rightarrow> clock - t \<le> 60000}
   \<and> setHistory clock point prev =
       filter (\<lambda>p. case time_value (time p) of None \<Rightarrow> False | Some t \<Rightarrow> clock - t \<le> 60000)
         (prev @ [point])
   \<and> (\<forall>p \<in> set (setHistory clock point prev).
         \<exists>t. time_value (time p) = Some t \<and> clock - t \<le> 60000)
   \<and> (\<forall>p t. p \<in> set (prev @ [point]) \<and> time_value (time p) = Some t \<and> clock - t = 60000
         \<longrightarrow> p \<in> set (setHistory clock point prev))
   \<and> (\<forall>p t. time_value (time p) = Some t \<and> 60000 < clock - t
         \<longrightarrow> p \<notin> set (setHistory clock point prev))
   \<and> (\<forall>p \<in> set (history (run_events parse st (evs @ [Snapshot (Some v) c clock]))).
         \<exists>t. time_value (time p) = Some t \<and> clock - t \<le> 60000)
   \<and> (history st' = [] \<and> sorted (update_clocks evs') \<and> update_clocks evs' \<noteq> [] \<longrightarrow>
        history (run_events parse' st' evs') =
          filter (\<lambda>p. case time_value (time p) of None \<Rightarrow> False
                     | Some t \<Rightarrow> last (update_clocks evs') - t \<le> 60000)
            (arrivals parse' evs'))"
proof -
  have flt: "setHistory clock point prev =
       filter (\<lambda>p. case time_value (time p) of None \<Rightarrow> False | Some t \<Rightarrow> clock - t \<le> 60000)
         (prev @ [point])" for point prev
    unfolding setHistory_def Let_def by (rule filter_cong) (simp_all add: in_window_iff)
  have st: "set (setHistory clock point prev) =
       {p \<in> set (prev @ [point]).
          case time_value (time p) of None \<Rightarrow> False | Some t \<Rightarrow> clock - t \<le> 60000}"
    for point prev
    unfolding flt by (rule set_filter)
  have mem: "\<exists>t. time_value (time p) = Some t \<and> clock - t \<le> 60000"
    if "p \<in> set (setHistory clock point prev)" for p point prev
    using that unfolding st by (cases "time_value (time p)") simp_all
  have seq: "history (run_events parse st (evs @ [Snapshot (Some v) c clock])) =
      setHistory clock \<lparr>time = ts parse c v, tds = tdsVal v, temperature = tempVal v\<rparr>
        (history (run_events parse st evs))"
    by (simp add: run_events_snoc history_on_snapshot_Some)
  show ?thesis
  proof (intro conjI)
    show "set (setHistory clock point prev) =
       {p \<in> set (prev @ [point]).
          case time_value (time p) of None \<Rightarrow> False | Some t \<Rightarrow> clock - t \<le> 60000}"
      by (rule st)
    show "setHistory clock point prev =
       filter (\<lambda>p. case time_value (time p) of None \<Rightarrow> False | Some t \<Rightarrow> clock - t \<le> 60000)
         (prev @ [point])" by (rule flt)
    show "\<forall>p \<in> set (setHistory clock point prev).
         \<exists>t. time_value (time p) = Some t \<and> clock - t \<le> 60000"
      using mem by blast
    show "\<forall>p t. p \<in> set (prev @ [point]) \<and> time_value (time p) = Some t \<and> clock - t = 60000
         \<longrightarrow> p \<in> set (setHistory clock point prev)"
      unfolding st by auto
    show "\<forall>p t. time_value (time p) = Some t \<and> 60000 < clock - t
         \<longrightarrow> p \<notin> set (setHistory clock point prev)"
      unfolding st by auto
    show "\<forall>p \<in> set (history (run_events parse st (evs @ [Snapshot (Some v) c clock]))).
         \<exists>t. time_value (time p) = Some t \<and> clock - t \<le> 60000"
      unfolding seq using mem by blast
    show "history st' = [] \<and> sorted (update_clocks evs') \<and> update_clocks evs' \<noteq> [] \<longrightarrow>
        history (run_events parse' st' evs') =
          filter (\<lambda>p. case time_value (time p) of None \<Rightarrow> False
                     | Some t \<Rightarrow> last (update_clocks evs') - t \<le> 60000)
            (arrivals parse' evs')"
    proof
      assume a: "history st' = [] \<and> sorted (update_clocks evs') \<and> update_clocks evs' \<noteq> []"
      then have "history (run_events parse' st' evs') =
          filter (in_window (Date_now (last (update_clocks evs')))) (arrivals parse' evs')"
        using history_sorted_clocks [of st' evs' parse'] by simp
      also have "\<dots> = filter (\<lambda>p. case time_value (time p) of None \<Rightarrow> False
                     | Some t \<Rightarrow> last (update_clocks evs') - t \<le> 60000)
            (arrivals parse' evs')"
        by (rule filter_cong) (simp_all add: in_window_iff)
      finally show "history (run_events parse' st' evs') =
          filter (\<lambda>p. case time_value (time p) of None \<Rightarrow> False
                     | Some t \<Rightarrow> last (update_clocks evs') - t \<le> 60000)
            (arrivals parse' evs')" .
    qed
  qed
qed

text \<open>
  The run of the readings at \<open>T\<close>, \<open>T + 30 s\<close> and \<open>T + 61 s\<close> with \<open>T = 0\<close>: the first
  is evicted at \<open>T + 61 s\<close>; and a reading of age exactly 60000 ms stays.
\<close>

theorem setHistory_window_witness:
  "setHistory 61000 \<lparr>time = DateValue (Some 61000), tds = Num 300, temperature = Num 22\<rparr>
     [\<lparr>time = DateValue (Some 0), tds = Num 300, temperature = Num 22\<rparr>,
      \<lparr>time = DateValue (Some 30000), tds = Num 300, temperature = Num 22\<rparr>]
   = [\<lparr>time = DateValue (Some 30000), tds = Num 300, temperature = Num 22\<rparr>,
      \<lparr>time = DateValue (Some 61000), tds = Num 300, temperature = Num 22\<rparr>]
   \<and> setHistory 60000 \<lparr>time = DateValue (Some 60000), tds = Num 300, temperature = Num 22\<rparr>
     [\<lparr>time = DateValue (Some 0), tds = Num 300, temperature = Num 22\<rparr>]
   = [\<lparr>time = DateValue (Some 0), tds = Num 300, temperature = Num 22\<rparr>,
      \<lparr>time = DateValue (Some 60000), tds = Num 300, temperature = Num 22\<rparr>]
   \<and> history (run_events Date_parse_iso initial_state
        [Snapshot (Some \<lparr>val_tds = Number (Num 300), val_temperature = Number (Num 22),
                         val_timestamp = None\<rparr>) 0 0,
         Snapshot (Some \<lparr>val_tds = Number (Num 300), val_temperature = Number (Num 22),
                         val_timestamp = None\<rparr>) 30000 30000,
         Snapshot (Some \<lparr>val_tds = Number (Num 300), val_temperature = Number (Num 22),
                         val_timestamp = None\<rparr>) 61000 61000])
   = [\<lparr>time = DateValue (Some 30000), tds = Num 300, temperature = Num 22\<rparr>,
      \<lparr>time = DateValue (Some 61000), tds = Num 300, temperature = Num 22\<rparr>]"
proof -
  let ?v = "\<lparr>val_tds = Number (Num 300), val_temperature = Number (Num 22),
             val_timestamp = None\<rparr>"
  let ?evs = "[Snapshot (Some ?v) 0 0, Snapshot (Some ?v) 30000 30000,
               Snapshot (Some ?v) 61000 61000]"
  have w1: "setHistory 61000
       \<lparr>time = DateValue (Some 61000), tds = Num 300, temperature = Num 22\<rparr>
       [\<lparr>time = DateValue (Some 0), tds = Num 300, temperature = Num 22\<rparr>,
        \<lparr>time = DateValue (Some 30000), tds = Num 300, temperature = Num 22\<rparr>]
     = [\<lparr>time = DateValue (Some 30000), tds = Num 300, temperature = Num 22\<rparr>,
        \<lparr>time = DateValue (Some 61000), tds = Num 300, temperature = Num 22\<rparr>]"
    using setHistory_window [where clock = 61000
      and point = "\<lparr>time = DateValue (Some 61000), tds = Num 300, temperature = Num 22\<rparr>"
      and prev = "[\<lparr>time = DateValue (Some 0), tds = Num 300, temperature = Num 22\<rparr>,
                   \<lparr>time = DateValue (Some 30000), tds = Num 300, temperature = Num 22\<rparr>]"]
    by simp
  have w2: "setHistory 60000
       \<lparr>time = DateValue (Some 60000), tds = Num 300, temperature = Num 22\<rparr>
       [\<lparr>time = DateValue (Some 0), tds = Num 300, temperature = Num 22\<rparr>]
     = [\<lparr>time = DateValue (Some 0), tds = Num 300, temperature = Num 22\<rparr>,
        \<lparr>time = DateValue (Some 60000), tds = Num 300, temperature = Num 22\<rparr>]"
    using setHistory_window [where clock = 60000
      and point = "\<lparr>time = DateValue (Some 60000), tds = Num 300, temperature = Num 22\<rparr>"
      and prev = "[\<lparr>time = DateValue (Some 0), tds = Num 300, temperature = Num 22\<rparr>]"]
    by simp
  have h: "history initial_state = [] \<and> sorted (update_clocks ?evs) \<and> update_clocks ?evs \<noteq> []"
    by (simp add: initial_state_def)
  have "history (run_events Date_parse_iso initial_state ?evs) =
      filter (\<lambda>p. case time_value (time p) of None \<Rightarrow> False
                 | Some t \<Rightarrow> last (update_clocks ?evs) - t \<le> 60000)
        (arrivals Date_parse_iso ?evs)"
    using h setHistory_window [where st' = initial_state and evs' = ?evs
        and parse' = Date_parse_iso]
    by blast
  then have w3: "history (run_events Date_parse_iso initial_state ?evs) =
      [\<lparr>time = DateValue (Some 30000), tds = Num 300, temperature = Num 22\<rparr>,
       \<lparr>time = DateValue (Some 61000), tds = Num 300, temperature = Num 22\<rparr>]"
    by (simp add: ts_def new_Date_def tdsVal_def tempVal_def nullish_def ToNumber_def)
  show ?thesis
    using w1 w2 w3 by blast
qed

text \<open>
  C8, as the code has it.  \<open>setHistory\<close> never reorders: the new buffer is a subsequence
  of the previous buffer followed by the new point; it is the retained elements of the
  previous buffer in their order, followed by the new point when that point is itself
  within the window, in which case the new point is last.  Over any run of feed events the
  buffer is the elements of the starting buffer that were within the window at every
  update, in their order, followed by points that arrived during the run: an element that
  an update evicted is in no later buffer unless it arrives again.
\<close>

theorem setHistory_order:
  "subseq (setHistory clock point prev) (prev @ [point])
   \<and> subseq (filter (in_window (Date_now clock)) prev) prev
   \<and> setHistory clock point prev =
       filter (in_window (Date_now clock)) prev
       @ (if in_window (Date_now clock) point then [point] else [])
   \<and> (in_window (Date_now clock) point \<longrightarrow>
        (\<exists>kept. subseq kept prev \<and> setHistory clock point prev = kept @ [point]))
   \<and> (\<exists>fresh. subseq fresh (arrivals parse evs) \<and>
         history (run_events parse st evs) =
           filter (\<lambda>p. list_all (\<lambda>c. in_window (Date_now c) p) (update_clocks evs))
             (history st)
           @ fresh)"
proof (intro conjI)
  show "subseq (setHistory clock point prev) (prev @ [point])"
    unfolding setHistory_def Let_def by (rule subseq_filter_left)
  show "subseq (filter (in_window (Date_now clock)) prev) prev"
    by simp
  show "setHistory clock point prev =
       filter (in_window (Date_now clock)) prev
       @ (if in_window (Date_now clock) point then [point] else [])"
    by (rule setHistory_filter)
  show "in_window (Date_now clock) point \<longrightarrow>
        (\<exists>kept. subseq kept prev \<and> setHistory clock point prev = kept @ [point])"
  proof
    assume w: "in_window (Date_now clock) point"
    have "subseq (filter (in_window (Date_now clock)) prev) prev" by simp
    moreover have "setHistory clock point prev =
        filter (in_window (Date_now clock)) prev @ [point]"
      using w by (simp add: setHistory_filter)
    ultimately show "\<exists>kept. subseq kept prev \<and> setHistory clock point prev = kept @ [point]"
      by blast
  qed
  show "\<exists>fresh. subseq fresh (arrivals parse evs) \<and>
         history (run_events parse st evs) =
           filter (\<lambda>p. list_all (\<lambda>c. in_window (Date_now c) p) (update_clocks evs))
             (history st)
           @ fresh"
    by (rule history_run_events)
qed

text \<open>
  A new point within the window is the last element of the new buffer.
\<close>

theorem setHistory_order_witness:
  "in_window (Date_now 61000)
     \<lparr>time = DateValue (Some 61000), tds = Num 300, temperature = Num 22\<rparr>
   \<and> (\<exists>kept.
        subseq kept
          [\<lparr>time = DateValue (Some 0), tds = Num 300, temperature = Num 22\<rparr>,
           \<lparr>time = DateValue (Some 30000), tds = Num 300, temperature = Num 22\<rparr>]
        \<and> setHistory 61000
            \<lparr>time = DateValue (Some 61000), tds = Num 300, temperature = Num 22\<rparr>
            [\<lparr>time = DateValue (Some 0), tds = Num 300, temperature = Num 22\<rparr>,
             \<lparr>time = DateValue (Some 30000), tds = Num 300, temperature = Num 22\<rparr>]
          = kept @ [\<lparr>time = DateValue (Some 61000), tds = Num 300, temperature = Num 22\<rparr>])"
proof -
  have w: "in_window (Date_now 61000)
     \<lparr>time = DateValue (Some 61000), tds = Num 300, temperature = Num 22\<rparr>"
    by (simp add: in_window_def Date_now_def getTime_def)
  show ?thesis
    using w setHistory_order [where clock = 61000
      and point = "\<lparr>time = DateValue (Some 61000), tds = Num 300, temperature = Num 22\<rparr>"
      and prev = "[\<lparr>time = DateValue (Some 0), tds = Num 300, temperature = Num 22\<rparr>,
                   \<lparr>time = DateValue (Some 30000), tds = Num 300, temperature = Num 22\<rparr>]"]
    by blast
qed

text \<open>
  A new point stamped 70 s before the clock reading is not in the new buffer, whose last
  element is then an older arrival.
\<close>

theorem setHistory_stale_counterexample:
  "setHistory 70000 \<lparr>time = DateValue (Some 0), tds = Num 300, temperature = Num 22\<rparr>
     [\<lparr>time = DateValue (Some 50000), tds = Num 310, temperature = Num 23\<rparr>]
   = [\<lparr>time = DateValue (Some 50000), tds = Num 310, temperature = Num 23\<rparr>]
   \<and> \<lparr>time = DateValue (Some 0), tds = Num 300, temperature = Num 22\<rparr>
       \<notin> set (setHistory 70000
                 \<lparr>time = DateValue (Some 0), tds = Num 300, temperature = Num 22\<rparr>
                 [\<lparr>time = DateValue (Some 50000), tds = Num 310, temperature = Num 23\<rparr>])"
  by (simp add: setHistory_def in_window_def Date_now_def getTime_def)

text \<open>
  C10.  A snapshot whose timestamp string parses to a time more than 60000 ms before the
  clock reading of the updater leaves no point in the buffer: the new buffer is the
  previous one filtered, and the new point is evicted in the same step, while the value
  cells take the new values and \<open>online\<close> becomes true.  From the initial state this gives
  an empty buffer with \<open>online\<close> true and current values 300 and 22.
\<close>

theorem stale_snapshot_evicted:
  "(val_timestamp v = Some s \<and> s \<noteq> [] \<and> parse s = Some t \<and> 60000 < clock' - t \<longrightarrow>
      history (on_snapshot parse clock clock' (Some v) st) =
        filter (in_window (Date_now clock')) (history st)
      \<and> \<lparr>time = ts parse clock v, tds = tdsVal v, temperature = tempVal v\<rparr>
          \<notin> set (history (on_snapshot parse clock clock' (Some v) st))
      \<and> tds_state (on_snapshot parse clock clock' (Some v) st) = Some (tdsVal v)
      \<and> temperature_state (on_snapshot parse clock clock' (Some v) st) = Some (tempVal v)
      \<and> lastUpdated (on_snapshot parse clock clock' (Some v) st) = Some (ts parse clock v)
      \<and> online (on_snapshot parse clock clock' (Some v) st) = True)
   \<and> history (on_snapshot Date_parse_iso 1704067261000 1704067261000
        (Some \<lparr>val_tds = Number (Num 300), val_temperature = Number (Num 22),
               val_timestamp = Some ''2024-01-01T00:00:00.000Z''\<rparr>) initial_state) = []
   \<and> online (on_snapshot Date_parse_iso 1704067261000 1704067261000
        (Some \<lparr>val_tds = Number (Num 300), val_temperature = Number (Num 22),
               val_timestamp = Some ''2024-01-01T00:00:00.000Z''\<rparr>) initial_state) = True
   \<and> tds_state (on_snapshot Date_parse_iso 1704067261000 1704067261000
        (Some \<lparr>val_tds = Number (Num 300), val_temperature = Number (Num 22),
               val_timestamp = Some ''2024-01-01T00:00:00.000Z''\<rparr>) initial_state)
       = Some (Num 300)
   \<and> temperature_state (on_snapshot Date_parse_iso 1704067261000 1704067261000
        (Some \<lparr>val_tds = Number (Num 300), val_temperature = Number (Num 22),
               val_timestamp = Some ''2024-01-01T00:00:00.000Z''\<rparr>) initial_state)
       = Some (Num 22)"
proof -
  have gen: "history (on_snapshot parse clock clock' (Some v) st) =
        filter (in_window (Date_now clock')) (history st)
      \<and> \<lparr>time = ts parse clock v, tds = tdsVal v, temperature = tempVal v\<rparr>
          \<notin> set (history (on_snapshot parse clock clock' (Some v) st))"
    if h: "val_timestamp v = Some s" "s \<noteq> []" "parse s = Some t" "60000 < clock' - t"
    for parse clock clock' v st s t
  proof -
    have tsv: "ts parse clock v = new_Date_string parse s"
      using h(1,2) by (simp add: ts_def)
    have "\<not> in_window (Date_now clock')
             \<lparr>time = ts parse clock v, tds = tdsVal v, temperature = tempVal v\<rparr>"
      unfolding tsv using h(3,4) by (rule stale_not_in_window)
    then show ?thesis
      unfolding history_on_snapshot_Some by (simp add: new_point_evicted)
  qed
  have cells: "tds_state (on_snapshot parse clock clock' (Some v) st) = Some (tdsVal v)
      \<and> temperature_state (on_snapshot parse clock clock' (Some v) st) = Some (tempVal v)
      \<and> lastUpdated (on_snapshot parse clock clock' (Some v) st) = Some (ts parse clock v)
      \<and> online (on_snapshot parse clock clock' (Some v) st) = True"
    for parse clock clock' v st
    by (simp add: on_snapshot_def)
  let ?v = "\<lparr>val_tds = Number (Num 300), val_temperature = Number (Num 22),
               val_timestamp = Some ''2024-01-01T00:00:00.000Z''\<rparr>"
  have ex: "history (on_snapshot Date_parse_iso 1704067261000 1704067261000 (Some ?v)
              initial_state) = []"
    using gen [of ?v "''2024-01-01T00:00:00.000Z''" Date_parse_iso 1704067200000
                 1704067261000 1704067261000 initial_state]
    by (simp add: Date_parse_iso_example initial_state_def)
  have vals: "tdsVal ?v = Num 300" "tempVal ?v = Num 22"
    by (simp_all add: tdsVal_def tempVal_def nullish_def ToNumber_def)
  have c2: "online (on_snapshot Date_parse_iso 1704067261000 1704067261000 (Some ?v)
              initial_state) = True"
    "tds_state (on_snapshot Date_parse_iso 1704067261000 1704067261000 (Some ?v)
              initial_state) = Some (Num 300)"
    "temperature_state (on_snapshot Date_parse_iso 1704067261000 1704067261000 (Some ?v)
              initial_state) = Some (Num 22)"
    using cells [of Date_parse_iso 1704067261000 1704067261000 ?v initial_state] vals
    by simp_all
  have part1: "val_timestamp v = Some s \<and> s \<noteq> [] \<and> parse s = Some t \<and> 60000 < clock' - t \<longrightarrow>
      history (on_snapshot parse clock clock' (Some v) st) =
        filter (in_window (Date_now clock')) (history st)
      \<and> \<lparr>time = ts parse clock v, tds = tdsVal v, temperature = tempVal v\<rparr>
          \<notin> set (history (on_snapshot parse clock clock' (Some v) st))
      \<and> tds_state (on_snapshot parse clock clock' (Some v) st) = Some (tdsVal v)
      \<and> temperature_state (on_snapshot parse clock clock' (Some v) st) = Some (tempVal v)
      \<and> lastUpdated (on_snapshot parse clock clock' (Some v) st) = Some (ts parse clock v)
      \<and> online (on_snapshot parse clock clock' (Some v) st) = True"
    using gen [of v s parse t clock' clock st] cells [of parse clock clock' v st]
    by blast
  show ?thesis
    using part1 ex c2 by blast
qed

text \<open>
  The same with a buffer that holds one recent point: it stays alone, and the card shows
  the value 650 of a reading that is not in the buffer.
\<close>

theorem stale_snapshot_evicted_witness:
  "Date_parse_iso ''2024-01-01T00:00:00.000Z'' = Some 1704067200000
   \<and> (60000 :: int) < 1704067270000 - 1704067200000
   \<and> history (on_snapshot Date_parse_iso 1704067270000 1704067270000
        (Some \<lparr>val_tds = Number (Num 650), val_temperature = Number (Num 35),
               val_timestamp = Some ''2024-01-01T00:00:00.000Z''\<rparr>)
        \<lparr>tds_state = Some (Num 300), temperature_state = Some (Num 22),
         lastUpdated = Some (DateValue (Some 1704067250000)), online = True,
         history = [\<lparr>time = DateValue (Some 1704067250000), tds = Num 300,
                     temperature = Num 22\<rparr>]\<rparr>)
     = [\<lparr>time = DateValue (Some 1704067250000), tds = Num 300, temperature = Num 22\<rparr>]
   \<and> tds_state (on_snapshot Date_parse_iso 1704067270000 1704067270000
        (Some \<lparr>val_tds = Number (Num 650), val_temperature = Number (Num 35),
               val_timestamp = Some ''2024-01-01T00:00:00.000Z''\<rparr>)
        \<lparr>tds_state = Some (Num 300), temperature_state = Some (Num 22),
         lastUpdated = Some (DateValue (Some 1704067250000)), online = True,
         history = [\<lparr>time = DateValue (Some 1704067250000), tds = Num 300,
                     temperature = Num 22\<rparr>]\<rparr>)
     = Some (Num 650)"
proof -
  let ?v = "\<lparr>val_tds = Number (Num 650), val_temperature = Number (Num 35),
               val_timestamp = Some ''2024-01-01T00:00:00.000Z''\<rparr>"
  let ?st = "\<lparr>tds_state = Some (Num 300), temperature_state = Some (Num 22),
         lastUpdated = Some (DateValue (Some 1704067250000)), online = True,
         history = [\<lparr>time = DateValue (Some 1704067250000), tds = Num 300,
                     temperature = Num 22\<rparr>]\<rparr>"
  have p: "Date_parse_iso ''2024-01-01T00:00:00.000Z'' = Some 1704067200000"
    by (rule Date_parse_iso_example)
  have vals: "tdsVal ?v = Num 650"
    by (simp add: tdsVal_def nullish_def ToNumber_def)
  show ?thesis
    using p vals
      stale_snapshot_evicted [where v = ?v and s = "''2024-01-01T00:00:00.000Z''"
        and parse = Date_parse_iso and t = 1704067200000 and clock' = 1704067270000
        and clock = 1704067270000 and st = ?st]
    by (simp add: in_window_iff)
qed

end
